theory Spec2Isabelle
  imports Complex_Main
begin

section \<open>Strings: the functions of Go's strings package that the router uses\<close>

text \<open>
  Go strings are byte sequences; they are modelled as \<open>string\<close> (a list of characters).
\<close>

definition HasPrefix :: "string \<Rightarrow> string \<Rightarrow> bool" where
  "HasPrefix s p = (take (length p) s = p)"

definition TrimPrefix :: "string \<Rightarrow> string \<Rightarrow> string" where
  "TrimPrefix s p = (if HasPrefix s p then drop (length p) s else s)"

definition HasSuffix :: "string \<Rightarrow> string \<Rightarrow> bool" where
  "HasSuffix s x = (length x \<le> length s \<and> drop (length s - length x) s = x)"

text \<open>
  \<open>strings.Split(s, sep)\<close> for a separator of one character, the only use in the
  source (\<open>"/"\<close>). The result has one element more than \<open>s\<close> has separators, so
  it is never empty and \<open>parts[0]\<close> always exists.
\<close>

fun Split :: "string \<Rightarrow> char \<Rightarrow> string list" where
  "Split [] c = [[]]"
| "Split (x # xs) c =
     (if x = c then [] # Split xs c
      else (case Split xs c of [] \<Rightarrow> [[x]] | y # ys \<Rightarrow> (x # y) # ys))"

section \<open>Data model\<close>

subsection \<open>Values and rows\<close>

text \<open>
  The engine reads and writes model structs through reflection. A struct value is
  modelled as the list of its exported fields, in declaration order, each with its
  current value; the constructor of the value is the field's \<open>reflect.Kind\<close>.
  \<open>float64\<close> values are idealised as reals.
\<close>

datatype val = VString string | VUint nat | VFloat real | VInt int | VBool bool



type_synonym row = "(string \<times> val) list"

text \<open>
  \<open>item.FieldByName(name)\<close>: \<open>None\<close> is the zero \<open>reflect.Value\<close> (\<open>IsValid\<close>
  is false, \<open>CanSet\<close> is false).
\<close>

definition FieldByName :: "row \<Rightarrow> string \<Rightarrow> val option" where
  "FieldByName item name = map_of item name"

subsection \<open>Descriptors\<close>

text \<open>
  The struct declarations of \<open>Field\<close>, \<open>Resource\<close>, \<open>Association\<close>, \<open>Scope\<close>,
  \<open>Config\<close> and \<open>Permission\<close> are outside server.go, admin.go and utils.go; the records below hold the
  members the source reads (\<open>f.Name\<close>, \<open>f.Label\<close>, \<open>f.Type\<close>, \<open>f.Readonly\<close>,
  \<open>f.Searchable\<close>, \<open>f.SearchResource\<close>, \<open>f.Decorator\<close>, ...). Members of the same name
  in different structs carry the struct's name as a prefix.
\<close>

record Field =
  f_Name :: string
  f_Label :: string
  f_Type :: string
  f_Readonly :: bool
  f_Searchable :: bool
  f_SearchResource :: string
  f_Decorator :: "(val \<Rightarrow> val) option"

record Association =
  assoc_Type :: string
  assoc_Name :: string
  assoc_ResourceName :: string
  assoc_ForeignKey :: string

text \<open>
  A condition added by \<open>query.Where(sql, arg)\<close>: the SQL template and its argument. A
  query is the chain built on \<open>reg.DB.Model(res.Model)\<close>: the table of the model, the
  conditions in the order they were added, and the offset and limit when set.
\<close>

datatype cond = Where string string

record Query =
  q_Model :: string
  q_Conds :: "cond list"
  q_Offset :: "int option"
  q_Limit :: "int option"

record Scope =
  scope_Name :: string
  scope_Handler :: "Query \<Rightarrow> Query"

record Resource =
  res_Name :: string
  res_Group :: string
  res_Model :: row
  res_Fields :: "Field list"
  res_Associations :: "Association list"
  res_Scopes :: "Scope list"

text \<open>A function value registered by the embedding application, named by a handle.\<close>

type_synonym HandlerFunc = nat

record Page =
  page_Name :: string
  page_Group :: string
  page_Handler :: HandlerFunc

record Config =
  UploadDir :: string
  DefaultPerPage :: int
  SearchThreshold :: int

record Registry =
  Resources :: "string \<rightharpoonup> Resource"
  Pages :: "string \<rightharpoonup> Page"
  Config :: Config

record Permission =
  perm_Role :: string
  perm_ResourceName :: string
  perm_Action :: string

type_synonym AdminUser = string

subsection \<open>Registry operations (admin.go)\<close>

definition AddPage :: "Registry \<Rightarrow> string \<Rightarrow> string \<Rightarrow> HandlerFunc \<Rightarrow> Registry" where
  "AddPage reg name grp handler =
     reg\<lparr>Pages := (Pages reg)(name \<mapsto>
       \<lparr>page_Name = name, page_Group = grp, page_Handler = handler\<rparr>)\<rparr>"

definition GetResource :: "Registry \<Rightarrow> string \<Rightarrow> Resource option" where
  "GetResource reg name = Resources reg name"

section \<open>Authorization gate\<close>

text \<open>
  Modelled from the spec: \<open>IsAllowed\<close> is declared outside server.go, admin.go and utils.go (only
  its caller in \<open>ServeHTTP\<close> and its test are). The spec's rule: the role \<open>admin\<close> is
  always allowed; any other role is allowed iff a Permission record matches
  \<open>(role, resourceName, action)\<close> exactly. The Permission table is the list of its rows,
  and the lookup counts the matching rows.
\<close>

definition IsAllowed :: "Permission list \<Rightarrow> string \<Rightarrow> string \<Rightarrow> string \<Rightarrow> bool" where
  "IsAllowed perms role resourceName action =
     (if role = ''admin'' then True
      else 0 < length (filter (\<lambda>p. perm_Role p = role \<and> perm_ResourceName p = resourceName
                                    \<and> perm_Action p = action) perms))"

section \<open>The router (server.go, ServeHTTP)\<close>

text \<open>
  A request as the router reads it: the URL path, the method and the \<open>id\<close> query
  parameter. \<open>GetUserFromRequest\<close> is declared elsewhere: its two results, the user (\<open>None\<close> is
  \<open>nil\<close>) and the role, are arguments of the model.
\<close>

record Request =
  Path :: string
  Method :: string
  QueryId :: string

text \<open>
  What \<open>ServeHTTP\<close> does is the sequence of calls it makes on the response, the store and
  the handlers, in order. A handler that is called is one entry: what it does in turn is
  modelled with the handler.
\<close>

datatype call =
    ServeFile string string
  | HandleLogin
  | RenderLogin string
  | HandleLogout
  | Redirect string nat
  | HandleSearchAPI string
  | RenderDashboard AdminUser
  | CallHandler HandlerFunc
  | NotFound
  | HttpError string nat
  | HandleExport Resource
  | HandleCustomAction Resource bool
  | HandleBatchAction Resource
  | HandleSave Resource AdminUser
  | GetItem string string
  | RenderForm Resource bool AdminUser
  | RenderShow Resource AdminUser
  | DeleteItem string string
  | RecordActionCall AdminUser string string string string
  | RenderList Resource AdminUser
  | IndexPanic

text \<open>
  The action of a resource request: the second path segment when there is one and it is
  not empty, \<open>list\<close> otherwise (\<open>rest\<close> is \<open>parts[1:]\<close>).
\<close>

definition actionOf :: "string list \<Rightarrow> string" where
  "actionOf rest = (case rest of [] \<Rightarrow> ''list'' | a # _ \<Rightarrow> if a \<noteq> [] then a else ''list'')"

text \<open>The switch on the action (lines 110 to 131).\<close>

definition dispatch :: "Resource \<Rightarrow> string \<Rightarrow> Request \<Rightarrow> AdminUser \<Rightarrow> call list" where
  "dispatch res action r user =
     (if action = ''export'' then [HandleExport res]
      else if action = ''action'' then [HandleCustomAction res False]
      else if action = ''collection_action'' then [HandleCustomAction res True]
      else if action = ''batch_action'' then [HandleBatchAction res]
      else if action = ''save'' then [HandleSave res user]
      else if action = ''new'' then [RenderForm res False user]
      else if action = ''show'' then [GetItem (res_Name res) (QueryId r), RenderShow res user]
      else if action = ''edit'' then [GetItem (res_Name res) (QueryId r), RenderForm res True user]
      else if action = ''delete'' then
        [DeleteItem (res_Name res) (QueryId r),
         RecordActionCall user (res_Name res) (QueryId r) ''Delete'' ''Record deleted'',
         Redirect (''/admin/'' @ res_Name res) 303]
      else [RenderList res user])"

definition ServeHTTP ::
  "Registry \<Rightarrow> Permission list \<Rightarrow> AdminUser option \<Rightarrow> string \<Rightarrow> Request \<Rightarrow> call list" where
  "ServeHTTP reg perms user role r =
     (let upath = TrimPrefix (Path r) ''/admin'' in
      if HasPrefix upath ''/uploads/'' then
        [ServeFile (UploadDir (Config reg)) (TrimPrefix upath ''/uploads/'')]
      else if upath = ''/login'' then
        (if Method r = ''POST'' then [HandleLogin] else [RenderLogin ''''])
      else if upath = ''/logout'' then [HandleLogout]
      else case user of
        None \<Rightarrow> [Redirect ''/admin/login'' 303]
      | Some u \<Rightarrow>
          if HasSuffix upath ''/search'' then
            (case Split (TrimPrefix upath ''/'') (CHR ''/'') of
               [] \<Rightarrow> [IndexPanic]
             | p # _ \<Rightarrow> [HandleSearchAPI p])
          else if upath = '''' \<or> upath = ''/'' then [RenderDashboard u]
          else
            (case Split (TrimPrefix upath ''/'') (CHR ''/'') of
               [] \<Rightarrow> [IndexPanic]
             | resourceName # rest \<Rightarrow>
                 (case Pages reg resourceName of
                    Some page \<Rightarrow> [CallHandler (page_Handler page)]
                  | None \<Rightarrow>
                      (case GetResource reg resourceName of
                         None \<Rightarrow> [NotFound]
                       | Some res \<Rightarrow>
                           (let action = actionOf rest in
                            if \<not> IsAllowed perms role resourceName action
                               \<and> action \<noteq> ''export'' \<and> action \<noteq> ''action''
                               \<and> action \<noteq> ''collection_action'' \<and> action \<noteq> ''batch_action''
                            then [HttpError ''Forbidden'' 403]
                            else dispatch res action r u)))))"

section \<open>Projection of records for rendering\<close>

text \<open>
  An item as the templates receive it: attribute name to value
  (\<open>map[string]interface{}\<close>).
\<close>

type_synonym item = "string \<rightharpoonup> val"

text \<open>
  \<open>itemToMap\<close> is declared twice, in utils.go and again in server.go; the loop bodies
  differ. This is the one of utils.go (lines 18 to 34): a field with a decorator is stored
  decorated, and the key \<open>ID\<close> is set last, to the raw identifier. The argument
  \<open>res\<close> is not used by the source and is left out.
\<close>

fun itemToMap_loop :: "Field list \<Rightarrow> row \<Rightarrow> item \<Rightarrow> item" where
  "itemToMap_loop [] it m = m"
| "itemToMap_loop (f # fs) it m =
     itemToMap_loop fs it
       (case FieldByName it (f_Name f) of
          None \<Rightarrow> m
        | Some v \<Rightarrow>
            (case f_Decorator f of
               Some d \<Rightarrow> m(f_Name f \<mapsto> d v)
             | None \<Rightarrow> m(f_Name f \<mapsto> v)))"

definition itemToMap :: "Field list \<Rightarrow> row \<Rightarrow> item" where
  "itemToMap flds it =
     (let m = itemToMap_loop flds it Map.empty in
      case FieldByName it ''ID'' of None \<Rightarrow> m | Some idv \<Rightarrow> m(''ID'' \<mapsto> idv))"

text \<open>The declaration of server.go (lines 366 to 372): the decorator is not consulted.\<close>

fun itemToMap_server_loop :: "Field list \<Rightarrow> row \<Rightarrow> item \<Rightarrow> item" where
  "itemToMap_server_loop [] it m = m"
| "itemToMap_server_loop (f # fs) it m =
     itemToMap_server_loop fs it
       (case FieldByName it (f_Name f) of
          None \<Rightarrow> m
        | Some v \<Rightarrow> m(f_Name f \<mapsto> v))"

definition itemToMap_server :: "Field list \<Rightarrow> row \<Rightarrow> item" where
  "itemToMap_server flds it =
     (let m = itemToMap_server_loop flds it Map.empty in
      case FieldByName it ''ID'' of None \<Rightarrow> m | Some idv \<Rightarrow> m(''ID'' \<mapsto> idv))"

text \<open>\<open>sliceToMap\<close> is the same in both files: one item per element, in order.\<close>

definition sliceToMap :: "Field list \<Rightarrow> row list \<Rightarrow> item list" where
  "sliceToMap flds slice = map (itemToMap flds) slice"

section \<open>The store\<close>

text \<open>
  The storage layer (GORM and the database behind it) is an external collaborator. The
  model keeps, for every registered model type, the rows of its table in storage order,
  and the audit trail. How the database decides whether a row satisfies a condition
  (\<open>LIKE\<close>, \<open>>=\<close>, \<open><=\<close> on a column, or whatever a scope adds) is a parameter
  \<open>holds\<close> of the operations that read through a query.
\<close>

record ActionRecord =
  act_User :: AdminUser
  act_ResourceName :: string
  act_RecordID :: string
  act_Kind :: string
  act_Description :: string

record Store =
  Tables :: "string \<Rightarrow> row list"
  Actions :: "ActionRecord list"



definition Offset :: "Query \<Rightarrow> int \<Rightarrow> Query" where
  "Offset q n = q\<lparr>q_Offset := Some n\<rparr>"

definition Limit :: "Query \<Rightarrow> int \<Rightarrow> Query" where
  "Limit q n = q\<lparr>q_Limit := Some n\<rparr>"

text \<open>The rows a query selects before offset and limit: those satisfying every condition.\<close>

definition matching :: "(cond \<Rightarrow> row \<Rightarrow> bool) \<Rightarrow> Store \<Rightarrow> Query \<Rightarrow> row list" where
  "matching holds st q =
     filter (\<lambda>rw. list_all (\<lambda>c. holds c rw) (q_Conds q)) (Tables st (q_Model q))"



section \<open>The list view (server.go, renderList)\<close>



text \<open>
  \<open>strconv.Atoi\<close> with its error discarded, as the source calls it: an optional sign and
  at least one decimal digit give the number, anything else gives 0. Go's \<open>int\<close> has a
  width that depends on the platform; the model takes integers unbounded, so it describes
  the runs in which no value leaves the machine range.
\<close>

definition digitVal :: "char \<Rightarrow> nat option" where
  "digitVal c =
     map_of [(CHR ''0'', 0), (CHR ''1'', 1), (CHR ''2'', 2), (CHR ''3'', 3), (CHR ''4'', 4),
             (CHR ''5'', 5), (CHR ''6'', 6), (CHR ''7'', 7), (CHR ''8'', 8), (CHR ''9'', 9)] c"

fun decimal :: "nat \<Rightarrow> string \<Rightarrow> nat option" where
  "decimal n [] = Some n"
| "decimal n (c # cs) =
     (case digitVal c of None \<Rightarrow> None | Some d \<Rightarrow> decimal (n * 10 + d) cs)"

definition Atoi :: "string \<Rightarrow> int" where
  "Atoi s =
     (case s of
        [] \<Rightarrow> 0
      | c # cs \<Rightarrow>
          if c = CHR ''-'' \<or> c = CHR ''+'' then
            (if cs = [] then 0
             else case decimal 0 cs of
                    None \<Rightarrow> 0
                  | Some n \<Rightarrow> if c = CHR ''-'' then - int n else int n)
          else (case decimal 0 s of None \<Rightarrow> 0 | Some n \<Rightarrow> int n))"






section \<open>Panics\<close>


section \<open>The form view (server.go, renderForm)\<close>






section \<open>Formatting and parsing\<close>





text \<open>
  \<open>strconv.ParseUint(s, 10, 64)\<close>: the value and whether the error is \<open>nil\<close>
  (\<open>uint\<close> is taken 64 bits wide, so \<open>SetUint\<close> stores the value as it is). A string
  that is empty or has a character that is not a decimal digit is a syntax error, with
  the value 0; a number of digits that does not fit 64 bits is a range error, with the
  value \<open>2^64 - 1\<close> (the package documents both).
\<close>

definition ParseUint :: "string \<Rightarrow> nat \<times> bool" where
  "ParseUint s =
     (if s = [] then (0, False)
      else case decimal 0 s of
             None \<Rightarrow> (0, False)
           | Some n \<Rightarrow> if n < 2 ^ 64 then (n, True) else (2 ^ 64 - 1, False))"

section \<open>Export (server.go, handleExport)\<close>




section \<open>Save (server.go, handleSave)\<close>
















section \<open>Well-formed input of Save\<close>




section \<open>Example data\<close>

text \<open>
  The data of the spec's end-to-end scenario: a resource \<open>Product\<close> with the fields
  \<open>Name\<close> (text) and \<open>Price\<close> (number), and the permission \<open>(editor, Product, edit)\<close>.
\<close>

definition plainField :: "string \<Rightarrow> string \<Rightarrow> string \<Rightarrow> bool \<Rightarrow> Field" where
  "plainField name label type readonly =
     \<lparr>f_Name = name, f_Label = label, f_Type = type, f_Readonly = readonly,
      f_Searchable = False, f_SearchResource = '''', f_Decorator = None\<rparr>"

definition Product :: Resource where
  "Product =
     \<lparr>res_Name = ''Product'', res_Group = '''',
      res_Model = [(''ID'', VUint 0), (''Name'', VString ''''), (''Stock'', VUint 0)],
      res_Fields = [plainField ''ID'' ''Id'' ''number'' True,
                    plainField ''Name'' ''Product name'' ''text'' False,
                    plainField ''Stock'' ''In stock'' ''number'' False],
      res_Associations = [], res_Scopes = []\<rparr>"

definition demoConfig :: Config where
  "demoConfig = \<lparr>UploadDir = ''uploads'', DefaultPerPage = 10, SearchThreshold = 3\<rparr>"

definition demoRegistry :: Registry where
  "demoRegistry = \<lparr>Resources = [''Product'' \<mapsto> Product], Pages = Map.empty,
                    Config = demoConfig\<rparr>"

definition editorMayEdit :: Permission where
  "editorMayEdit = \<lparr>perm_Role = ''editor'', perm_ResourceName = ''Product'',
                     perm_Action = ''edit''\<rparr>"

definition get :: "string \<Rightarrow> Request" where
  "get path = \<lparr>Path = path, Method = ''GET'', QueryId = ''7''\<rparr>"

definition productRow :: "nat \<Rightarrow> row" where
  "productRow n = [(''ID'', VUint n), (''Name'', VString ''widget''), (''Stock'', VUint (2 * n))]"


text \<open>A decorator that masks a value, and a field \<open>ID\<close> and a field \<open>Name\<close> using it.\<close>

definition masked :: "val \<Rightarrow> val" where
  "masked v = VString ''***''"

definition maskedField :: "string \<Rightarrow> Field" where
  "maskedField name = (plainField name name ''text'' False)\<lparr>f_Decorator := Some masked\<rparr>"











section \<open>Verified properties\<close>

subsection \<open>The authorization gate and the router\<close>

lemma Split_not_Nil: "Split s c \<noteq> []"
  by (induction s) (auto split: list.splits)

text \<open>
  Claim C1. The role \<open>admin\<close> is allowed whatever the Permission table holds; any other
  role is allowed exactly when the table holds the record \<open>(role, resource, action)\<close>
  itself: no wildcard, no hierarchy, and nothing is allowed by default.
\<close>

theorem IsAllowed_admin_or_exact_match:
  "IsAllowed perms ''admin'' resourceName action \<and>
   (role \<noteq> ''admin'' \<longrightarrow>
      IsAllowed perms role resourceName action =
        (\<lparr>perm_Role = role, perm_ResourceName = resourceName, perm_Action = action\<rparr>
           \<in> set perms))"
proof -
  have eq: "\<And>p. (perm_Role p = role \<and> perm_ResourceName p = resourceName
                 \<and> perm_Action p = action)
              = (p = \<lparr>perm_Role = role, perm_ResourceName = resourceName,
                       perm_Action = action\<rparr>)"
    by auto
  show ?thesis
    unfolding IsAllowed_def eq by (simp add: filter_empty_conv)
qed

theorem IsAllowed_admin_or_exact_match_witness:
  "IsAllowed [] ''admin'' ''AnyResource'' ''anyAction'' \<and>
   ''editor'' \<noteq> ''admin'' \<and>
   IsAllowed [editorMayEdit] ''editor'' ''Product'' ''edit'' \<and>
   \<not> IsAllowed [editorMayEdit] ''editor'' ''Product'' ''delete'' \<and>
   \<not> IsAllowed [] ''guest'' ''User'' ''list''"
  using IsAllowed_admin_or_exact_match [of "[]" "''AnyResource''" "''anyAction''" "''editor''"]
    IsAllowed_admin_or_exact_match [of "[editorMayEdit]" "''Product''" "''edit''" "''editor''"]
    IsAllowed_admin_or_exact_match [of "[editorMayEdit]" "''Product''" "''delete''" "''editor''"]
    IsAllowed_admin_or_exact_match [of "[]" "''User''" "''list''" "''guest''"]
  by (simp add: editorMayEdit_def)

text \<open>
  Claim C2, as the router has it. An authenticated request that no earlier route takes
  (uploads, login, logout, the dashboard), whose first segment names a registered resource
  and no custom page: a path ending in \<open>/search\<close> goes to the search API before the
  authorization check is reached; otherwise the actions \<open>export\<close>, \<open>action\<close>,
  \<open>collection_action\<close> and \<open>batch_action\<close> go to their handlers whatever \<open>IsAllowed\<close>
  says, and every other action is dispatched when \<open>IsAllowed\<close> holds and answered with
  the single call \<open>Forbidden\<close> (403) when it does not: nothing is read or written.
\<close>

theorem ServeHTTP_gate:
  assumes "upath = TrimPrefix (Path r) ''/admin''"
    and "\<not> HasPrefix upath ''/uploads/''" and "upath \<noteq> ''/login''" and "upath \<noteq> ''/logout''"
    and "upath \<noteq> ''''" and "upath \<noteq> ''/''"
    and "Split (TrimPrefix upath ''/'') (CHR ''/'') = resourceName # rest"
    and "Pages reg resourceName = None"
    and "GetResource reg resourceName = Some res"
    and "action = actionOf rest"
  shows "ServeHTTP reg perms (Some u) role r =
     (if HasSuffix upath ''/search'' then [HandleSearchAPI resourceName]
      else if action = ''export'' then [HandleExport res]
      else if action = ''action'' then [HandleCustomAction res False]
      else if action = ''collection_action'' then [HandleCustomAction res True]
      else if action = ''batch_action'' then [HandleBatchAction res]
      else if IsAllowed perms role resourceName action then dispatch res action r u
      else [HttpError ''Forbidden'' 403])"
  using assms by (simp add: ServeHTTP_def Let_def dispatch_def)

theorem ServeHTTP_gate_witness:
  "ServeHTTP demoRegistry [editorMayEdit] (Some ''eve'') ''editor'' (get ''/admin/Product/delete'')
     = [HttpError ''Forbidden'' 403] \<and>
   ServeHTTP demoRegistry [editorMayEdit] (Some ''eve'') ''editor'' (get ''/admin/Product/export'')
     = [HandleExport Product] \<and>
   ServeHTTP demoRegistry [editorMayEdit] (Some ''eve'') ''editor'' (get ''/admin/Product/edit'')
     = [GetItem ''Product'' ''7'', RenderForm Product True ''eve'']"
proof -
  have parts: "\<And>a. Split (TrimPrefix (''/Product/'' @ a) ''/'') (CHR ''/'')
                  = ''Product'' # Split a (CHR ''/'')"
    by (simp add: TrimPrefix_def HasPrefix_def split: list.splits add: Split_not_Nil)
  have pre: "\<And>a. TrimPrefix (Path (get (''/admin/Product/'' @ a))) ''/admin'' = ''/Product/'' @ a"
    by (simp add: get_def TrimPrefix_def HasPrefix_def)
  note gate = ServeHTTP_gate [where reg = demoRegistry and resourceName = "''Product''"
      and res = Product and perms = "[editorMayEdit]" and role = "''editor''" and u = "''eve''",
      OF pre [symmetric] _ _ _ _ _ parts _ _ refl]
  have 1: "ServeHTTP demoRegistry [editorMayEdit] (Some ''eve'') ''editor''
             (get (''/admin/Product/'' @ ''delete'')) = [HttpError ''Forbidden'' 403]"
    by (subst gate)
       (simp_all add: HasPrefix_def HasSuffix_def demoRegistry_def GetResource_def actionOf_def
          IsAllowed_def editorMayEdit_def)
  have 2: "ServeHTTP demoRegistry [editorMayEdit] (Some ''eve'') ''editor''
             (get (''/admin/Product/'' @ ''export'')) = [HandleExport Product]"
    by (subst gate)
       (simp_all add: HasPrefix_def HasSuffix_def demoRegistry_def GetResource_def actionOf_def)
  have 3: "ServeHTTP demoRegistry [editorMayEdit] (Some ''eve'') ''editor''
             (get (''/admin/Product/'' @ ''edit''))
           = [GetItem ''Product'' ''7'', RenderForm Product True ''eve'']"
    by (subst gate)
       (simp_all add: HasPrefix_def HasSuffix_def demoRegistry_def GetResource_def actionOf_def
          IsAllowed_def editorMayEdit_def dispatch_def get_def Product_def)
  from 1 2 3 show ?thesis by simp
qed

theorem ServeHTTP_search_not_gated:
  "GetResource demoRegistry ''Product'' = Some Product \<and>
   Split (TrimPrefix ''/Product/search'' ''/'') (CHR ''/'') = [''Product'', ''search''] \<and>
   actionOf [''search''] = ''search'' \<and>
   \<not> IsAllowed [] ''guest'' ''Product'' ''search'' \<and>
   ''search'' \<notin> {''export'', ''action'', ''collection_action'', ''batch_action''} \<and>
   ServeHTTP demoRegistry [] (Some ''bob'') ''guest'' (get ''/admin/Product/search'')
     = [HandleSearchAPI ''Product''] \<and>
   ServeHTTP demoRegistry [] (Some ''bob'') ''guest'' (get ''/admin/Product/search'')
     \<noteq> [HttpError ''Forbidden'' 403]"
  by (simp add: ServeHTTP_def Let_def get_def TrimPrefix_def HasPrefix_def HasSuffix_def
      demoRegistry_def GetResource_def actionOf_def IsAllowed_def)

text \<open>
  Claim C10, as the router has it. An authenticated request that no earlier route takes
  (uploads, login, logout, a path ending in \<open>/search\<close>, the dashboard) and whose first
  segment is the name of a registered page: the only call is the page's handler, whatever
  the role, the Permission table and the registered resources are. The page is looked up
  before the resource, so it shadows a resource of its name.
\<close>

theorem ServeHTTP_page_first:
  assumes "upath = TrimPrefix (Path r) ''/admin''"
    and "\<not> HasPrefix upath ''/uploads/''" and "upath \<noteq> ''/login''" and "upath \<noteq> ''/logout''"
    and "\<not> HasSuffix upath ''/search''" and "upath \<noteq> ''''" and "upath \<noteq> ''/''"
    and "Split (TrimPrefix upath ''/'') (CHR ''/'') = name # rest"
    and "Pages reg name = Some page"
  shows "ServeHTTP reg perms (Some u) role r = [CallHandler (page_Handler page)]"
  using assms by (simp add: ServeHTTP_def Let_def)

theorem ServeHTTP_page_first_witness:
  "GetResource (AddPage demoRegistry ''Product'' ''Tools'' 42) ''Product'' = Some Product \<and>
   \<not> IsAllowed [] ''guest'' ''Product'' ''list'' \<and>
   ServeHTTP (AddPage demoRegistry ''Product'' ''Tools'' 42) [] (Some ''bob'') ''guest''
     (get ''/admin/Product'') = [CallHandler 42]"
proof -
  have "ServeHTTP (AddPage demoRegistry ''Product'' ''Tools'' 42) [] (Some ''bob'') ''guest''
     (get ''/admin/Product'')
     = [CallHandler (page_Handler \<lparr>page_Name = ''Product'', page_Group = ''Tools'',
                                      page_Handler = 42\<rparr>)]"
    by (rule ServeHTTP_page_first [where upath = "''/Product''" and name = "''Product''"
          and rest = "[]"])
       (simp_all add: get_def TrimPrefix_def HasPrefix_def HasSuffix_def AddPage_def)
  then show ?thesis
    by (simp add: AddPage_def demoRegistry_def GetResource_def IsAllowed_def)
qed

theorem ServeHTTP_page_search_counterexample:
  "Split (TrimPrefix ''/reports/search'' ''/'') (CHR ''/'') = [''reports'', ''search''] \<and>
   Pages (AddPage demoRegistry ''reports'' ''Tools'' 42) ''reports''
     = Some \<lparr>page_Name = ''reports'', page_Group = ''Tools'', page_Handler = 42\<rparr> \<and>
   ServeHTTP (AddPage demoRegistry ''reports'' ''Tools'' 42) [] (Some ''bob'') ''guest''
     (get ''/admin/reports/search'') = [HandleSearchAPI ''reports''] \<and>
   ServeHTTP (AddPage demoRegistry ''reports'' ''Tools'' 42) [] (Some ''bob'') ''guest''
     (get ''/admin/reports/search'') \<noteq> [CallHandler 42]"
  by (simp add: ServeHTTP_def Let_def get_def TrimPrefix_def HasPrefix_def HasSuffix_def
      AddPage_def)

subsection \<open>The list view: pagination and filters\<close>



lemma matching_Offset_Limit [simp]:
  "matching holds st (Limit (Offset q n) m) = matching holds st q"
  by (simp add: matching_def Limit_def Offset_def)


lemma Atoi_empty [simp]: "Atoi '''' = 0"
  by (simp add: Atoi_def)








subsection \<open>Projection for rendering\<close>

lemma itemToMap_loop_other:
  "name \<notin> f_Name ` set flds \<Longrightarrow> itemToMap_loop flds it m name = m name"
  by (induction flds arbitrary: m) (auto split: option.splits)

lemma itemToMap_loop_field:
  assumes "f \<in> set flds" and "distinct (map f_Name flds)"
    and "FieldByName it (f_Name f) = Some v"
  shows "itemToMap_loop flds it m (f_Name f)
           = Some (case f_Decorator f of None \<Rightarrow> v | Some d \<Rightarrow> d v)"
  using assms
proof (induction flds arbitrary: m)
  case Nil
  then show ?case by simp
next
  case (Cons g gs)
  show ?case
  proof (cases "g = f")
    case True
    with Cons.prems have "f_Name f \<notin> f_Name ` set gs" by auto
    then show ?thesis
      using True Cons.prems(3) by (simp add: itemToMap_loop_other split: option.splits)
  next
    case False
    with Cons.prems have "f \<in> set gs" and "distinct (map f_Name gs)" by auto
    then show ?thesis using Cons.IH Cons.prems(3) by simp
  qed
qed

text \<open>
  Claim C9, as utils.go has it. For a record projected by \<open>itemToMap\<close> through field
  descriptors of distinct names, a field with a decorator whose name is not \<open>ID\<close> and
  which the record has is stored as the decorator applied to the raw value; the key
  \<open>ID\<close> always holds the raw identifier of the record, whatever the descriptors say;
  \<open>sliceToMap\<close> projects every record of a list so. The projection returns the item
  only: the record is an argument that is read, never written.
\<close>

theorem itemToMap_decorated:
  "(f \<in> set flds \<and> distinct (map f_Name flds) \<and> f_Decorator f = Some d \<and> f_Name f \<noteq> ''ID''
      \<and> FieldByName it (f_Name f) = Some v
    \<longrightarrow> itemToMap flds it (f_Name f) = Some (d v)) \<and>
   itemToMap flds it ''ID'' = FieldByName it ''ID'' \<and>
   sliceToMap flds slice = map (itemToMap flds) slice"
proof -
  have 1: "f \<in> set flds \<and> distinct (map f_Name flds) \<and> f_Decorator f = Some d
      \<and> f_Name f \<noteq> ''ID'' \<and> FieldByName it (f_Name f) = Some v
    \<longrightarrow> itemToMap flds it (f_Name f) = Some (d v)"
    by (auto simp add: itemToMap_def Let_def itemToMap_loop_field split: option.splits)
  have "FieldByName it ''ID'' = None \<Longrightarrow> itemToMap_loop flds it m ''ID'' = m ''ID''" for m
    by (induction flds arbitrary: m) (auto split: option.splits)
  then have 2: "itemToMap flds it ''ID'' = FieldByName it ''ID''"
    by (simp add: itemToMap_def Let_def split: option.splits)
  from 1 2 show ?thesis by (simp add: sliceToMap_def)
qed

theorem itemToMap_decorated_witness:
  "maskedField ''Name'' \<in> set [plainField ''ID'' ''Id'' ''number'' True, maskedField ''Name''] \<and>
   distinct (map f_Name [plainField ''ID'' ''Id'' ''number'' True, maskedField ''Name'']) \<and>
   f_Decorator (maskedField ''Name'') = Some masked \<and>
   f_Name (maskedField ''Name'') \<noteq> ''ID'' \<and>
   FieldByName (productRow 7) (f_Name (maskedField ''Name'')) = Some (VString ''widget'') \<and>
   itemToMap [plainField ''ID'' ''Id'' ''number'' True, maskedField ''Name''] (productRow 7)
     (f_Name (maskedField ''Name'')) = Some (VString ''***'') \<and>
   itemToMap [plainField ''ID'' ''Id'' ''number'' True, maskedField ''Name''] (productRow 7) ''ID''
     = Some (VUint 7)"
proof -
  have h: "maskedField ''Name'' \<in> set [plainField ''ID'' ''Id'' ''number'' True, maskedField ''Name''] \<and>
     distinct (map f_Name [plainField ''ID'' ''Id'' ''number'' True, maskedField ''Name'']) \<and>
     f_Decorator (maskedField ''Name'') = Some masked \<and>
     f_Name (maskedField ''Name'') \<noteq> ''ID'' \<and>
     FieldByName (productRow 7) (f_Name (maskedField ''Name'')) = Some (VString ''widget'')"
    by (simp add: maskedField_def plainField_def productRow_def FieldByName_def)
  from itemToMap_decorated [of "maskedField ''Name''"
      "[plainField ''ID'' ''Id'' ''number'' True, maskedField ''Name'']" masked "productRow 7"
      "VString ''widget''" "[]"] h
  have "itemToMap [plainField ''ID'' ''Id'' ''number'' True, maskedField ''Name''] (productRow 7)
     (f_Name (maskedField ''Name'')) = Some (masked (VString ''widget'')) \<and>
     itemToMap [plainField ''ID'' ''Id'' ''number'' True, maskedField ''Name''] (productRow 7) ''ID''
       = FieldByName (productRow 7) ''ID''"
    by blast
  with h show ?thesis
    by (simp add: masked_def productRow_def FieldByName_def maskedField_def plainField_def)
qed

theorem itemToMap_decorated_ID_counterexample:
  "maskedField ''ID'' \<in> set [maskedField ''ID''] \<and>
   f_Decorator (maskedField ''ID'') = Some masked \<and>
   FieldByName (productRow 7) (f_Name (maskedField ''ID'')) = Some (VUint 7) \<and>
   itemToMap [maskedField ''ID''] (productRow 7) (f_Name (maskedField ''ID'')) = Some (VUint 7) \<and>
   itemToMap [maskedField ''ID''] (productRow 7) (f_Name (maskedField ''ID''))
     \<noteq> Some (masked (VUint 7))"
  by (simp add: itemToMap_def Let_def maskedField_def plainField_def productRow_def
      FieldByName_def masked_def)

text \<open>
  The second declaration of \<open>itemToMap\<close>, in server.go, stores the raw value of a
  decorated field: on the same record the two declarations differ.
\<close>

lemma itemToMap_server_raw:
  "itemToMap_server [maskedField ''Name''] (productRow 7) ''Name'' = Some (VString ''widget'') \<and>
   itemToMap [maskedField ''Name''] (productRow 7) ''Name'' = Some (VString ''***'')"
  by (simp add: itemToMap_def itemToMap_server_def Let_def maskedField_def plainField_def
      productRow_def FieldByName_def masked_def)

subsection \<open>Export\<close>








subsection \<open>The form view: BelongsTo associations\<close>









subsection \<open>Save\<close>


















lemma ParseUint_empty [simp]: "ParseUint '''' = (0, False)"
  by (simp add: ParseUint_def)

lemma ParseUint_zero [simp]: "ParseUint ''0'' = (0, True)"
  by (simp add: ParseUint_def digitVal_def)





















end
